theory Spec2Isabelle
  imports Complex_Main "HOL-Library.Sublist"
begin

section \<open>Data model (src/types)\<close>

text \<open>
  A GeoJSON \<open>Position\<close> is an array of numbers. JavaScript numbers are modelled as
  \<open>real\<close>; no property below depends on rounding.
\<close>

type_synonym position = "real list"

text \<open>The GeoJSON \<open>Geometry\<close> union, one constructor per \<open>type\<close> tag.\<close>

datatype geometry =
    Point position
  | MultiPoint "position list"
  | LineString "position list"
  | MultiLineString "position list list"
  | Polygon "position list list"
  | MultiPolygon "position list list list"
  | GeometryCollection "geometry list"

text \<open>\<open>ShapeType = 'polygon' | 'rectangle' | 'circle' | 'linestring'\<close>\<close>

datatype ShapeType = polygon | rectangle | circle | linestring

text \<open>
  \<open>FeatureProperties\<close> without \<open>id\<close> and \<open>createdAt\<close> is what a caller of
  \<open>addFeature\<close> supplies (\<open>Omit<FeatureProperties, 'id' | 'createdAt'>\<close>); the full record
  extends it with the two fields the store assigns. An optional field is an \<open>option\<close>.
\<close>

record CandidateProperties =
  shapeType :: ShapeType
  name :: "string option"
  radius :: "real option"
  center :: "position option"

record FeatureProperties = CandidateProperties +
  id_prop :: string
  createdAt :: string

text \<open>
  A GeoJSON feature: the constant \<open>type: 'Feature'\<close> tag is left out, and so are the
  optional GeoJSON members \<open>id\<close> and \<open>bbox\<close>, which this code never reads or writes.
\<close>

record 'p Feature =
  geometry :: geometry
  properties :: 'p

type_synonym MapFeature = "FeatureProperties Feature"
type_synonym CandidateFeature = "CandidateProperties Feature"

text \<open>
  \<open>Feature<Polygon | MultiPolygon, GeoJsonProperties>\<close>, the values handed to and returned by
  Turf. Its property bag is either that of a \<open>MapFeature\<close> (the cast in
  \<open>getFeatureAsPolygon\<close>) or whatever Turf attaches to the features it creates, modelled
  as an optional \<open>FeatureProperties\<close>.
\<close>

type_synonym PolyFeature = "FeatureProperties option Feature"

record OverlapValidationResult =
  isValid :: bool
  error :: "string option"
  trimmedFeature :: "MapFeature option"

section \<open>The Turf library as a parameter\<close>

text \<open>
  A call into Turf either throws or returns. \<open>turf.intersect\<close> and \<open>turf.difference\<close> return
  a feature or \<open>null\<close>; \<open>turf.booleanContains\<close> returns a boolean; \<open>turf.circle\<close> returns
  a polygon feature. Turf is not part of the repository, so all four are fields of a
  record that every geometry function takes as its first argument.
\<close>

datatype 'a attempt = Throws | Returns 'a

record Turf =
  turf_circle :: "position \<Rightarrow> real \<Rightarrow> nat \<Rightarrow> PolyFeature attempt"
  turf_intersect :: "PolyFeature \<Rightarrow> PolyFeature \<Rightarrow> PolyFeature option attempt"
  turf_booleanContains :: "PolyFeature \<Rightarrow> PolyFeature \<Rightarrow> bool attempt"
  turf_difference :: "PolyFeature \<Rightarrow> PolyFeature \<Rightarrow> PolyFeature option attempt"

section \<open>Geometry utilities (src/utils/geometry)\<close>

text \<open>
  \<open>turf.circle(center, radiusMeters / 1000, { steps, units: 'kilometers' })\<close>; the call is
  outside any \<open>try\<close>, so an exception of \<open>turf.circle\<close> propagates.
\<close>

definition circleToPolygon :: "Turf \<Rightarrow> position \<Rightarrow> real \<Rightarrow> nat \<Rightarrow> PolyFeature attempt" where
  "circleToPolygon k c radiusMeters steps = turf_circle k c (radiusMeters / 1000) steps"

text \<open>
  JavaScript truthiness of the two optional circle properties: an array is truthy whenever
  it is present, a number when it is present and not zero (\<open>NaN\<close>, falsy as well, has no
  counterpart in \<open>real\<close>).
\<close>

definition truthyCenter :: "position option \<Rightarrow> bool" where
  "truthyCenter c = (c \<noteq> None)"

definition truthyRadius :: "real option \<Rightarrow> bool" where
  "truthyRadius r = (case r of None \<Rightarrow> False | Some v \<Rightarrow> v \<noteq> 0)"

definition isPolygonGeometry :: "geometry \<Rightarrow> bool" where
  "isPolygonGeometry g = (case g of Polygon _ \<Rightarrow> True | MultiPolygon _ \<Rightarrow> True | _ \<Rightarrow> False)"

text \<open>The cast \<open>feature as Feature<Polygon | MultiPolygon>\<close>: the same object.\<close>

definition asPolyFeature :: "MapFeature \<Rightarrow> PolyFeature" where
  "asPolyFeature f = \<lparr>geometry = geometry f, properties = Some (properties f)\<rparr>"

definition getFeatureAsPolygon :: "Turf \<Rightarrow> MapFeature \<Rightarrow> PolyFeature option attempt" where
  "getFeatureAsPolygon k feature =
     (if shapeType (properties feature) = linestring then Returns None
      else if shapeType (properties feature) = circle
              \<and> truthyCenter (center (properties feature))
              \<and> truthyRadius (radius (properties feature))
      then (case (center (properties feature), radius (properties feature)) of
              (Some c, Some r) \<Rightarrow>
                (case circleToPolygon k c r 64 of
                   Throws \<Rightarrow> Throws
                 | Returns p \<Rightarrow> Returns (Some p))
            | _ \<Rightarrow> Returns None)
      else if isPolygonGeometry (geometry feature) then Returns (Some (asPolyFeature feature))
      else Returns None)"

text \<open>\<open>intersection !== null\<close>, and \<open>false\<close> from the \<open>catch\<close>.\<close>

definition checkFeaturesOverlap :: "Turf \<Rightarrow> PolyFeature \<Rightarrow> PolyFeature \<Rightarrow> bool" where
  "checkFeaturesOverlap k feature1 feature2 =
     (case turf_intersect k feature1 feature2 of
        Throws \<Rightarrow> False
      | Returns intersection \<Rightarrow> intersection \<noteq> None)"

text \<open>\<open>turf.booleanContains(outerFeature, innerFeature)\<close>: the inner feature comes first
  in the parameter list, the outer one first in the Turf call.\<close>

definition isFullyEnclosed :: "Turf \<Rightarrow> PolyFeature \<Rightarrow> PolyFeature \<Rightarrow> bool" where
  "isFullyEnclosed k innerFeature outerFeature =
     (case turf_booleanContains k outerFeature innerFeature of
        Throws \<Rightarrow> False
      | Returns b \<Rightarrow> b)"

text \<open>The result of \<open>turf.difference\<close> as it is, and \<open>null\<close> from the \<open>catch\<close>.\<close>

definition trimPolygon :: "Turf \<Rightarrow> PolyFeature \<Rightarrow> PolyFeature \<Rightarrow> PolyFeature option" where
  "trimPolygon k newPolygon existingPolygon =
     (case turf_difference k newPolygon existingPolygon of
        Throws \<Rightarrow> None
      | Returns result \<Rightarrow> result)"

text \<open>The three error strings of \<open>validateAndTrimFeature\<close>.\<close>

definition errEnclosesExisting :: string where
  "errEnclosesExisting = ''Cannot create a shape that fully encloses an existing shape''"

definition errEnclosedByExisting :: string where
  "errEnclosedByExisting = ''Cannot create a shape that is fully enclosed by an existing shape''"

definition errFullyConsumed :: string where
  "errFullyConsumed = ''Shape would be completely consumed by overlap trimming''"

text \<open>
  \<open>existingFeatures.filter(not linestring).map(getFeatureAsPolygon).filter(not null)\<close>.
  The \<open>map\<close> runs over the whole array before the loop starts, so an exception of
  \<open>turf.circle\<close> on any existing circle aborts the call.
\<close>

fun collectPolygons :: "Turf \<Rightarrow> MapFeature list \<Rightarrow> (MapFeature \<times> PolyFeature) list attempt" where
  "collectPolygons k [] = Returns []"
| "collectPolygons k (f # fs) =
     (case getFeatureAsPolygon k f of
        Throws \<Rightarrow> Throws
      | Returns p \<Rightarrow>
          (case collectPolygons k fs of
             Throws \<Rightarrow> Throws
           | Returns r \<Rightarrow> Returns (case p of None \<Rightarrow> r | Some q \<Rightarrow> (f, q) # r)))"

definition existingPolygons :: "Turf \<Rightarrow> MapFeature list \<Rightarrow> (MapFeature \<times> PolyFeature) list attempt" where
  "existingPolygons k existingFeatures =
     collectPolygons k (filter (\<lambda>f. shapeType (properties f) \<noteq> linestring) existingFeatures)"

text \<open>
  The \<open>for\<close> loop. \<open>Inl\<close> is an early \<open>return\<close> with its error string; \<open>Inr\<close> is the
  loop running to its end with the final \<open>currentPolygon\<close>. The flag stands for the
  reference comparison \<open>currentPolygon !== newPolygon\<close> after the loop: it is set when
  \<open>currentPolygon\<close> has been assigned a result of \<open>turf.difference\<close>, which is a new
  object.
\<close>

fun trimLoop ::
  "Turf \<Rightarrow> PolyFeature \<Rightarrow> bool \<Rightarrow> (MapFeature \<times> PolyFeature) list \<Rightarrow> string + (PolyFeature \<times> bool)" where
  "trimLoop k currentPolygon changed [] = Inr (currentPolygon, changed)"
| "trimLoop k currentPolygon changed ((f, existingPolygon) # rest) =
     (if \<not> checkFeaturesOverlap k currentPolygon existingPolygon
      then trimLoop k currentPolygon changed rest
      else if isFullyEnclosed k existingPolygon currentPolygon
      then Inl errEnclosesExisting
      else if isFullyEnclosed k currentPolygon existingPolygon
      then Inl errEnclosedByExisting
      else (case trimPolygon k currentPolygon existingPolygon of
              None \<Rightarrow> Inl errFullyConsumed
            | Some trimmedPolygon \<Rightarrow> trimLoop k trimmedPolygon True rest))"

definition validResult :: OverlapValidationResult where
  "validResult = \<lparr>isValid = True, error = None, trimmedFeature = None\<rparr>"

definition invalidResult :: "string \<Rightarrow> OverlapValidationResult" where
  "invalidResult e = \<lparr>isValid = False, error = Some e, trimmedFeature = None\<rparr>"

definition validateAndTrimFeature ::
  "Turf \<Rightarrow> MapFeature \<Rightarrow> MapFeature list \<Rightarrow> OverlapValidationResult attempt" where
  "validateAndTrimFeature k newFeature existingFeatures =
     (if shapeType (properties newFeature) = linestring then Returns validResult
      else
        (case getFeatureAsPolygon k newFeature of
           Throws \<Rightarrow> Throws
         | Returns None \<Rightarrow> Returns validResult
         | Returns (Some newPolygon) \<Rightarrow>
             (case existingPolygons k existingFeatures of
                Throws \<Rightarrow> Throws
              | Returns eps \<Rightarrow>
                  (case trimLoop k newPolygon False eps of
                     Inl e \<Rightarrow> Returns (invalidResult e)
                   | Inr (currentPolygon, changed) \<Rightarrow>
                       if changed
                       then Returns \<lparr>isValid = True, error = None,
                              trimmedFeature = Some (newFeature\<lparr>geometry := geometry currentPolygon\<rparr>)\<rparr>
                       else Returns validResult))))"

section \<open>The store (src/store/mapStore.ts)\<close>

text \<open>
  \<open>ShapeLimitsConfig\<close> and \<open>ShapeCountsState\<close> are objects with exactly one numeric field
  per shape type, read as \<open>limits[shapeType]\<close>: functions from \<open>ShapeType\<close>. A limit is an
  integer (the type \<open>number\<close> would also allow fractions); a count is the length of an array.
\<close>

type_synonym ShapeLimitsConfig = "ShapeType \<Rightarrow> int"
type_synonym ShapeCountsState = "ShapeType \<Rightarrow> int"

definition DEFAULT_SHAPE_LIMITS :: ShapeLimitsConfig where
  "DEFAULT_SHAPE_LIMITS t =
     (case t of polygon \<Rightarrow> 10 | rectangle \<Rightarrow> 10 | circle \<Rightarrow> 5 | linestring \<Rightarrow> 20)"

record MapState =
  features :: "MapFeature list"
  drawingMode :: "ShapeType option"
  shapeLimits :: ShapeLimitsConfig
  errorMessage :: "string option"
  successMessage :: "string option"

definition initialState :: MapState where
  "initialState =
     \<lparr>features = [], drawingMode = None, shapeLimits = DEFAULT_SHAPE_LIMITS,
      errorMessage = None, successMessage = None\<rparr>"

text \<open>What a template literal prints for a shape type and for an integer.\<close>

definition shapeTypeName :: "ShapeType \<Rightarrow> string" where
  "shapeTypeName t =
     (case t of polygon \<Rightarrow> ''polygon'' | rectangle \<Rightarrow> ''rectangle''
      | circle \<Rightarrow> ''circle'' | linestring \<Rightarrow> ''linestring'')"

fun showNat :: "nat \<Rightarrow> string" where
  "showNat n =
     (if n < 10 then [''0123456789'' ! n]
      else showNat (n div 10) @ [''0123456789'' ! (n mod 10)])"

declare showNat.simps [simp del]

definition showInt :: "int \<Rightarrow> string" where
  "showInt i = (if i < 0 then ''-'' @ showNat (nat (- i)) else showNat (nat i))"

definition limitMessage :: "MapState \<Rightarrow> ShapeType \<Rightarrow> string" where
  "limitMessage s t =
     ''Maximum '' @ showInt (shapeLimits s t) @ '' '' @ shapeTypeName t @ ''s reached''"

definition getShapeCounts :: "MapState \<Rightarrow> ShapeCountsState" where
  "getShapeCounts s t = int (length (filter (\<lambda>f. shapeType (properties f) = t) (features s)))"

definition isShapeLimitReached :: "MapState \<Rightarrow> ShapeType \<Rightarrow> bool" where
  "isShapeLimitReached s t = (getShapeCounts s t \<ge> shapeLimits s t)"

definition setDrawingMode :: "ShapeType option \<Rightarrow> MapState \<Rightarrow> MapState" where
  "setDrawingMode mode s =
     (case mode of
        Some m \<Rightarrow>
          if isShapeLimitReached s m
          then s\<lparr>errorMessage := Some (limitMessage s m), drawingMode := None\<rparr>
          else s\<lparr>drawingMode := mode, errorMessage := None\<rparr>
      | None \<Rightarrow> s\<lparr>drawingMode := mode, errorMessage := None\<rparr>)"

text \<open>
  The complete feature built by \<open>addFeature\<close>. The results of \<open>uuidv4()\<close> and of
  \<open>new Date().toISOString()\<close> are arguments.
\<close>

definition newFeatureOf :: "CandidateFeature \<Rightarrow> string \<Rightarrow> string \<Rightarrow> MapFeature" where
  "newFeatureOf featureData newId now =
     \<lparr>geometry = geometry featureData,
      properties =
        \<lparr>shapeType = shapeType (properties featureData),
         name = name (properties featureData),
         radius = radius (properties featureData),
         center = center (properties featureData),
         id_prop = newId,
         createdAt = now\<rparr>\<rparr>"

text \<open>\<open>validationResult.error || 'Invalid feature'\<close>: the empty string is falsy too.\<close>

definition errorOrDefault :: "string option \<Rightarrow> string" where
  "errorOrDefault e =
     (case e of None \<Rightarrow> ''Invalid feature'' | Some m \<Rightarrow> if m = [] then ''Invalid feature'' else m)"

text \<open>
  \<open>addFeature\<close> returns a boolean and updates the store; an exception that escapes
  \<open>validateAndTrimFeature\<close> escapes \<open>addFeature\<close> before any \<open>set\<close>. The body is written
  over the validation function it calls (\<open>addFeatureWith\<close>), so that a property can speak
  about whether the call happens; \<open>addFeature\<close> is the body with the imported
  \<open>validateAndTrimFeature\<close>.
\<close>

definition addFeatureWith ::
  "(MapFeature \<Rightarrow> MapFeature list \<Rightarrow> OverlapValidationResult attempt) \<Rightarrow>
   string \<Rightarrow> string \<Rightarrow> CandidateFeature \<Rightarrow> MapState \<Rightarrow> bool attempt \<times> MapState" where
  "addFeatureWith validate newId now featureData s =
     (if isShapeLimitReached s (shapeType (properties featureData))
      then (Returns False,
            s\<lparr>errorMessage := Some (limitMessage s (shapeType (properties featureData)))\<rparr>)
      else
        (let newFeature = newFeatureOf featureData newId now in
         case validate newFeature (features s) of
           Throws \<Rightarrow> (Throws, s)
         | Returns validationResult \<Rightarrow>
             if \<not> isValid validationResult
             then (Returns False,
                   s\<lparr>errorMessage := Some (errorOrDefault (error validationResult))\<rparr>)
             else
               (let featureToAdd =
                      (case trimmedFeature validationResult of
                         Some t \<Rightarrow> t
                       | None \<Rightarrow> newFeature)
                in (Returns True,
                    s\<lparr>features := features s @ [featureToAdd],
                      drawingMode := None,
                      errorMessage := None,
                      successMessage :=
                        Some (case trimmedFeature validationResult of
                                Some t \<Rightarrow> ''Shape auto-trimmed to avoid overlap''
                              | None \<Rightarrow>
                                  shapeTypeName (shapeType (properties featureData))
                                    @ '' added successfully'')\<rparr>))))"

definition addFeature ::
  "Turf \<Rightarrow> string \<Rightarrow> string \<Rightarrow> CandidateFeature \<Rightarrow> MapState \<Rightarrow> bool attempt \<times> MapState" where
  "addFeature k = addFeatureWith (validateAndTrimFeature k)"

definition removeFeature :: "string \<Rightarrow> MapState \<Rightarrow> MapState" where
  "removeFeature i s =
     s\<lparr>features := filter (\<lambda>f. id_prop (properties f) \<noteq> i) (features s),
       successMessage := Some ''Feature removed''\<rparr>"

text \<open>
  \<open>Partial<MapFeature>\<close>: each top-level member of a feature may be present or absent, and
  \<open>{ ...f, ...updates }\<close> replaces the members that are present.
\<close>

record FeatureUpdates =
  geometryUpdate :: "geometry option"
  propertiesUpdate :: "FeatureProperties option"

definition spreadUpdates :: "MapFeature \<Rightarrow> FeatureUpdates \<Rightarrow> MapFeature" where
  "spreadUpdates f updates =
     \<lparr>geometry = (case geometryUpdate updates of Some g \<Rightarrow> g | None \<Rightarrow> geometry f),
      properties = (case propertiesUpdate updates of Some p \<Rightarrow> p | None \<Rightarrow> properties f)\<rparr>"

definition updateFeature :: "string \<Rightarrow> FeatureUpdates \<Rightarrow> MapState \<Rightarrow> MapState" where
  "updateFeature i updates s =
     s\<lparr>features :=
         map (\<lambda>f. if id_prop (properties f) = i then spreadUpdates f updates else f) (features s)\<rparr>"

definition clearAllFeatures :: "MapState \<Rightarrow> MapState" where
  "clearAllFeatures s = s\<lparr>features := [], successMessage := Some ''All features cleared''\<rparr>"

text \<open>The effect of \<open>exportGeoJSON\<close> on the store; the file download is not modelled.\<close>

definition exportGeoJSON :: "MapState \<Rightarrow> MapState" where
  "exportGeoJSON s =
     (if length (features s) = 0 then s\<lparr>errorMessage := Some ''No features to export''\<rparr>
      else s\<lparr>successMessage :=
               Some (''Exported '' @ showNat (length (features s)) @ '' features'')\<rparr>)"

definition clearError :: "MapState \<Rightarrow> MapState" where
  "clearError s = s\<lparr>errorMessage := None\<rparr>"

definition clearSuccess :: "MapState \<Rightarrow> MapState" where
  "clearSuccess s = s\<lparr>successMessage := None\<rparr>"

text \<open>\<open>Partial<ShapeLimitsConfig>\<close>: the limits that are present replace the stored ones.\<close>

definition updateShapeLimits :: "(ShapeType \<Rightarrow> int option) \<Rightarrow> MapState \<Rightarrow> MapState" where
  "updateShapeLimits limits s =
     s\<lparr>shapeLimits := (\<lambda>t. case limits t of Some v \<Rightarrow> v | None \<Rightarrow> shapeLimits s t)\<rparr>"

text \<open>
  The actions of the store that can write to it (the queries \<open>getShapeCounts\<close> and
  \<open>isShapeLimitReached\<close> only read), and a client calling them one after the other. A call
  that throws leaves the store as it was.
\<close>

datatype StoreAction =
    SetDrawingMode "ShapeType option"
  | AddFeature string string CandidateFeature
  | RemoveFeature string
  | UpdateFeature string FeatureUpdates
  | ClearAllFeatures
  | ExportGeoJSON
  | ClearError
  | ClearSuccess
  | UpdateShapeLimits "ShapeType \<Rightarrow> int option"

fun perform :: "Turf \<Rightarrow> StoreAction \<Rightarrow> MapState \<Rightarrow> MapState" where
  "perform k (SetDrawingMode mode) s = setDrawingMode mode s"
| "perform k (AddFeature newId now featureData) s = snd (addFeature k newId now featureData s)"
| "perform k (RemoveFeature i) s = removeFeature i s"
| "perform k (UpdateFeature i updates) s = updateFeature i updates s"
| "perform k ClearAllFeatures s = clearAllFeatures s"
| "perform k ExportGeoJSON s = exportGeoJSON s"
| "perform k ClearError s = clearError s"
| "perform k ClearSuccess s = clearSuccess s"
| "perform k (UpdateShapeLimits limits) s = updateShapeLimits limits s"

fun performAll :: "Turf \<Rightarrow> StoreAction list \<Rightarrow> MapState \<Rightarrow> MapState" where
  "performAll k [] s = s"
| "performAll k (a # as) s = performAll k as (perform k a s)"

section \<open>The drawing handler's rectangle (src/hooks/useDrawingHandler.ts)\<close>

record LatLng =
  lat :: real
  lng :: real

text \<open>The argument that \<open>createRectangle\<close> passes to \<open>addFeature\<close>.\<close>

definition createRectangle :: "LatLng \<Rightarrow> LatLng \<Rightarrow> CandidateFeature" where
  "createRectangle start end' =
     \<lparr>geometry =
        Polygon [[[lng start, lat start], [lng end', lat start], [lng end', lat end'],
                  [lng start, lat end'], [lng start, lat start]]],
      properties = \<lparr>shapeType = rectangle, name = None, radius = None, center = None\<rparr>\<rparr>"

section \<open>A kernel on axis-parallel boxes\<close>

text \<open>
  One value of the \<open>Turf\<close> parameter, used to run the functions above on concrete shapes.
  It reads a polygon as the bounding box of its outer ring and a multi-polygon as the
  list of these boxes; on rectangles with axis-parallel sides its answers are the exact
  planar ones (an intersection counts when it has positive area, containment is that of
  closed regions). A polygon without any ring is the empty region; a ring without a
  position, a position without two coordinates and a geometry that is no polygon make
  the operation throw. The circle is replaced by its bounding square.
\<close>

type_synonym box = "real \<times> real \<times> real \<times> real"

fun positionXY :: "position \<Rightarrow> (real \<times> real) option" where
  "positionXY (x # y # rest) = Some (x, y)"
| "positionXY _ = None"

fun ringBox :: "position list \<Rightarrow> box option" where
  "ringBox [] = None"
| "ringBox (p # ps) =
     (case positionXY p of
        None \<Rightarrow> None
      | Some (x, y) \<Rightarrow>
          if ps = [] then Some (x, y, x, y)
          else (case ringBox ps of
                  None \<Rightarrow> None
                | Some (a, b, c, d) \<Rightarrow> Some (min x a, min y b, max x c, max y d)))"

fun polygonBoxes :: "position list list \<Rightarrow> box list option" where
  "polygonBoxes [] = Some []"
| "polygonBoxes (outer # holes) = map_option (\<lambda>b. [b]) (ringBox outer)"

fun geometryBoxes :: "geometry \<Rightarrow> box list option" where
  "geometryBoxes (Polygon rings) = polygonBoxes rings"
| "geometryBoxes (MultiPolygon polys) = map_option concat (those (map polygonBoxes polys))"
| "geometryBoxes _ = None"

fun boxMeet :: "box \<Rightarrow> box \<Rightarrow> box option" where
  "boxMeet (a, b, c, d) (a', b', c', d') =
     (if max a a' < min c c' \<and> max b b' < min d d'
      then Some (max a a', max b b', min c c', min d d') else None)"

fun boxWithin :: "box \<Rightarrow> box \<Rightarrow> bool" where
  "boxWithin (a, b, c, d) (a', b', c', d') = (a' \<le> a \<and> b' \<le> b \<and> c \<le> c' \<and> d \<le> d')"

text \<open>A box minus a box: the strips left of, right of, below and above the cut.\<close>

fun boxMinus :: "box \<Rightarrow> box \<Rightarrow> box list" where
  "boxMinus (a, b, c, d) (a', b', c', d') =
     (if boxMeet (a, b, c, d) (a', b', c', d') = None then [(a, b, c, d)]
      else (if a < a' then [(a, b, a', d)] else [])
         @ (if c' < c then [(c', b, c, d)] else [])
         @ (if b < b' then [(max a a', b, min c c', b')] else [])
         @ (if d' < d then [(max a a', d', min c c', d)] else []))"

fun boxRing :: "box \<Rightarrow> position list" where
  "boxRing (a, b, c, d) = [[a, b], [c, b], [c, d], [a, d], [a, b]]"

definition boxesFeature :: "FeatureProperties option \<Rightarrow> box list \<Rightarrow> PolyFeature" where
  "boxesFeature props bs =
     \<lparr>geometry = (case bs of [b] \<Rightarrow> Polygon [boxRing b] | _ \<Rightarrow> MultiPolygon (map (\<lambda>b. [boxRing b]) bs)),
      properties = props\<rparr>"

definition boxIntersect :: "PolyFeature \<Rightarrow> PolyFeature \<Rightarrow> PolyFeature option attempt" where
  "boxIntersect f1 f2 =
     (case (geometryBoxes (geometry f1), geometryBoxes (geometry f2)) of
        (Some bs1, Some bs2) \<Rightarrow>
          (let common = concat (map (\<lambda>b1. List.map_filter (boxMeet b1) bs2) bs1)
           in Returns (if common = [] then None else Some (boxesFeature None common)))
      | _ \<Rightarrow> Throws)"

definition boxContains :: "PolyFeature \<Rightarrow> PolyFeature \<Rightarrow> bool attempt" where
  "boxContains outer inner =
     (case (geometryBoxes (geometry outer), geometryBoxes (geometry inner)) of
        (Some os, Some ins) \<Rightarrow>
          Returns (ins \<noteq> [] \<and> list_all (\<lambda>i. list_ex (boxWithin i) os) ins)
      | _ \<Rightarrow> Throws)"

definition boxDifference :: "PolyFeature \<Rightarrow> PolyFeature \<Rightarrow> PolyFeature option attempt" where
  "boxDifference f1 f2 =
     (case (geometryBoxes (geometry f1), geometryBoxes (geometry f2)) of
        (Some bs1, Some bs2) \<Rightarrow>
          (let remaining = fold (\<lambda>b acc. concat (map (\<lambda>a. boxMinus a b) acc)) bs2 bs1
           in Returns (if remaining = [] then None
                       else Some (boxesFeature (properties f1) remaining)))
      | _ \<Rightarrow> Throws)"

definition boxCircle :: "position \<Rightarrow> real \<Rightarrow> nat \<Rightarrow> PolyFeature attempt" where
  "boxCircle c r steps =
     (case positionXY c of
        None \<Rightarrow> Throws
      | Some (x, y) \<Rightarrow> Returns (boxesFeature None [(x - r, y - r, x + r, y + r)]))"

definition boxTurf :: Turf where
  "boxTurf =
     \<lparr>turf_circle = boxCircle, turf_intersect = boxIntersect,
      turf_booleanContains = boxContains, turf_difference = boxDifference\<rparr>"

section \<open>Example shapes\<close>

text \<open>
  Rectangles as the drawing handler builds them, completed with an id and a creation time
  (the twin has the extent of the big square, the adjacent square shares an edge with
  it), and a line string through the big square.
\<close>

definition corner :: "real \<Rightarrow> real \<Rightarrow> LatLng" where
  "corner x y = \<lparr>lat = y, lng = x\<rparr>"

definition bigSquare :: MapFeature where
  "bigSquare = newFeatureOf (createRectangle (corner 0 0) (corner 10 10)) ''a'' ''t0''"

definition twinSquare :: MapFeature where
  "twinSquare = newFeatureOf (createRectangle (corner 0 0) (corner 10 10)) ''e'' ''t5''"

definition smallSquare :: MapFeature where
  "smallSquare = newFeatureOf (createRectangle (corner 2 2) (corner 4 4)) ''b'' ''t1''"

definition shiftedSquare :: MapFeature where
  "shiftedSquare = newFeatureOf (createRectangle (corner 5 5) (corner 15 15)) ''c'' ''t2''"

definition adjacentSquare :: MapFeature where
  "adjacentSquare = newFeatureOf (createRectangle (corner 10 0) (corner 20 10)) ''n'' ''t9''"

definition farSquare :: MapFeature where
  "farSquare = newFeatureOf (createRectangle (corner 20 20) (corner 30 30)) ''d'' ''t3''"

definition crossingLine :: MapFeature where
  "crossingLine =
     \<lparr>geometry = LineString [[1, 1], [9, 9]],
      properties = \<lparr>shapeType = linestring, name = None, radius = None, center = None,
                    id_prop = ''l'', createdAt = ''t4''\<rparr>\<rparr>"

text \<open>Stores holding some of these shapes.\<close>

definition oneSquare :: MapState where
  "oneSquare = initialState\<lparr>features := [bigSquare]\<rparr>"

definition twoAdjacent :: MapState where
  "twoAdjacent = initialState\<lparr>features := [bigSquare, adjacentSquare]\<rparr>"

definition threeShapes :: MapState where
  "threeShapes = initialState\<lparr>features := [bigSquare, farSquare, crossingLine]\<rparr>"

definition fullOfRectangles :: MapState where
  "fullOfRectangles = initialState\<lparr>features := [bigSquare, farSquare], shapeLimits := (\<lambda>t. 2)\<rparr>"

text \<open>
  Shapes whose properties and geometry do not fit their shape type, and a polygon feature
  whose only ring has no position.
\<close>

definition strayCircle :: MapFeature where
  "strayCircle =
     \<lparr>geometry = Polygon [[[2, 2], [4, 2], [4, 4], [2, 4], [2, 2]]],
      properties = \<lparr>shapeType = circle, name = None, radius = Some 5, center = None,
                    id_prop = ''s'', createdAt = ''t6''\<rparr>\<rparr>"

definition pointPolygon :: MapFeature where
  "pointPolygon =
     \<lparr>geometry = Point [3, 3],
      properties = \<lparr>shapeType = polygon, name = None, radius = None, center = None,
                    id_prop = ''p'', createdAt = ''t7''\<rparr>\<rparr>"

definition radiuslessCircle :: MapFeature where
  "radiuslessCircle =
     \<lparr>geometry = Point [3, 3],
      properties = \<lparr>shapeType = circle, name = None, radius = None, center = Some [3, 3],
                    id_prop = ''r'', createdAt = ''t8''\<rparr>\<rparr>"

definition brokenPolygon :: PolyFeature where
  "brokenPolygon = \<lparr>geometry = Polygon [[]], properties = None\<rparr>"

text \<open>
  A circle as the drawing handler passes it to \<open>addFeature\<close>: a point geometry at the
  center, with the center and the radius (in meters) among the properties.
\<close>

definition circleAt :: "real \<Rightarrow> real \<Rightarrow> real \<Rightarrow> CandidateFeature" where
  "circleAt x y r =
     \<lparr>geometry = Point [x, y],
      properties = \<lparr>shapeType = circle, name = None, radius = Some r, center = Some [x, y]\<rparr>\<rparr>"

section \<open>Counts within limits\<close>

text \<open>No shape type has more features in the store than its limit allows.\<close>

definition withinLimits :: "MapState \<Rightarrow> bool" where
  "withinLimits s =
     list_all (\<lambda>t. getShapeCounts s t \<le> shapeLimits s t) [polygon, rectangle, circle, linestring]"

text \<open>
  The actions that neither write the limits nor change the shape type of a stored
  feature: everything but \<open>updateShapeLimits\<close>, and \<open>updateFeature\<close> only when it brings
  no properties or properties of the shape type that every feature with the given id
  already has.
\<close>

fun keepsLimitsAndKinds :: "MapState \<Rightarrow> StoreAction \<Rightarrow> bool" where
  "keepsLimitsAndKinds s (UpdateShapeLimits limits) = False"
| "keepsLimitsAndKinds s (UpdateFeature i updates) =
     (case propertiesUpdate updates of
        None \<Rightarrow> True
      | Some p \<Rightarrow>
          list_all (\<lambda>f. id_prop (properties f) \<noteq> i \<or> shapeType (properties f) = shapeType p)
            (features s))"
| "keepsLimitsAndKinds s a = True"

fun admissibleRun :: "Turf \<Rightarrow> StoreAction list \<Rightarrow> MapState \<Rightarrow> bool" where
  "admissibleRun k [] s = True"
| "admissibleRun k (a # as) s = (keepsLimitsAndKinds s a \<and> admissibleRun k as (perform k a s))"

fun changesLimits :: "StoreAction \<Rightarrow> bool" where
  "changesLimits (UpdateShapeLimits limits) = True"
| "changesLimits a = False"

text \<open>
  Two runs of a client. The first adds a rectangle, a second one that is trimmed against
  it, a circle and a line, renames the first rectangle, removes the second, and asks for
  the circle mode. The second adds five circles and a rectangle, then turns the rectangle
  into a sixth circle by replacing its properties.
\<close>

definition steadyRun :: "StoreAction list" where
  "steadyRun =
     [AddFeature ''a'' ''t0'' (createRectangle (corner 0 0) (corner 10 10)),
      AddFeature ''c'' ''t2'' (createRectangle (corner 5 5) (corner 15 15)),
      AddFeature ''k'' ''t3'' (circleAt 50 50 1000),
      AddFeature ''l'' ''t4''
        \<lparr>geometry = LineString [[1, 1], [9, 9]],
         properties = \<lparr>shapeType = linestring, name = None, radius = None, center = None\<rparr>\<rparr>,
      UpdateFeature ''a''
        \<lparr>geometryUpdate = None,
         propertiesUpdate = Some \<lparr>shapeType = rectangle, name = Some ''plot'', radius = None,
                                  center = None, id_prop = ''a'', createdAt = ''t0''\<rparr>\<rparr>,
      RemoveFeature ''c'',
      SetDrawingMode (Some circle)]"

definition overfullRun :: "StoreAction list" where
  "overfullRun =
     [AddFeature ''c1'' ''t1'' (circleAt 0 0 1000),
      AddFeature ''c2'' ''t2'' (circleAt 10 0 1000),
      AddFeature ''c3'' ''t3'' (circleAt 20 0 1000),
      AddFeature ''c4'' ''t4'' (circleAt 30 0 1000),
      AddFeature ''c5'' ''t5'' (circleAt 40 0 1000),
      AddFeature ''r1'' ''t6'' (createRectangle (corner 60 60) (corner 70 70)),
      UpdateFeature ''r1''
        \<lparr>geometryUpdate = None,
         propertiesUpdate = Some \<lparr>shapeType = circle, name = None, radius = Some 1000,
                                  center = Some [65, 65], id_prop = ''r1'', createdAt = ''t6''\<rparr>\<rparr>]"

section \<open>Properties of the overlap validation\<close>

subsection \<open>The loop and the function around it\<close>

lemma trimLoop_append:
  "trimLoop k cur ch (pre @ rest) =
     (case trimLoop k cur ch pre of
        Inl e \<Rightarrow> Inl e
      | Inr (cur', ch') \<Rightarrow> trimLoop k cur' ch' rest)"
proof (induction pre arbitrary: cur ch)
  case Nil
  show ?case by simp
next
  case (Cons p pre)
  obtain f ex where p: "p = (f, ex)" by (cases p)
  show ?case
    unfolding p using Cons.IH
    by (simp split: option.splits)
qed

lemma trimLoop_at_iteration:
  assumes "trimLoop k newPolygon False pre = Inr (cur, ch)"
  shows "trimLoop k newPolygon False (pre @ (f, ex) # rest) = trimLoop k cur ch ((f, ex) # rest)"
  using assms by (simp add: trimLoop_append)

lemma validate_polygon_case:
  assumes "getFeatureAsPolygon k newFeature = Returns (Some newPolygon)"
    and "existingPolygons k existingFeatures = Returns eps"
  shows "validateAndTrimFeature k newFeature existingFeatures =
     (case trimLoop k newPolygon False eps of
        Inl e \<Rightarrow> Returns (invalidResult e)
      | Inr (currentPolygon, changed) \<Rightarrow>
          if changed
          then Returns \<lparr>isValid = True, error = None,
                 trimmedFeature = Some (newFeature\<lparr>geometry := geometry currentPolygon\<rparr>)\<rparr>
          else Returns validResult)"
proof -
  have "shapeType (properties newFeature) \<noteq> linestring"
    using assms(1) by (auto simp: getFeatureAsPolygon_def)
  then show ?thesis
    using assms by (simp add: validateAndTrimFeature_def)
qed

lemma existingPolygons_single:
  assumes "getFeatureAsPolygon k B = Returns (Some pb)"
  shows "existingPolygons k [B] = Returns [(B, pb)]"
proof -
  have "shapeType (properties B) \<noteq> linestring"
    using assms by (auto simp: getFeatureAsPolygon_def)
  then show ?thesis using assms by (simp add: existingPolygons_def)
qed

lemma trimmedFeature_properties:
  assumes "validateAndTrimFeature k newFeature existingFeatures = Returns r"
    and "trimmedFeature r = Some t"
  shows "properties t = properties newFeature"
  using assms
  by (auto simp: validateAndTrimFeature_def validResult_def invalidResult_def
      split: if_splits attempt.splits option.splits sum.splits prod.splits)

lemma errorOrDefault_messages:
  "errorOrDefault (Some errEnclosesExisting) = errEnclosesExisting"
  "errorOrDefault (Some errEnclosedByExisting) = errEnclosedByExisting"
  "errorOrDefault (Some errFullyConsumed) = errFullyConsumed"
  by (simp_all add: errorOrDefault_def errEnclosesExisting_def errEnclosedByExisting_def
      errFullyConsumed_def)

lemma addFeature_rejected:
  assumes "\<not> isShapeLimitReached s (shapeType (properties featureData))"
    and "validateAndTrimFeature k (newFeatureOf featureData newId now) (features s)
           = Returns \<lparr>isValid = False, error = Some e, trimmedFeature = None\<rparr>"
  shows "addFeature k newId now featureData s
           = (Returns False, s\<lparr>errorMessage := Some (errorOrDefault (Some e))\<rparr>)"
  using assms by (simp add: addFeature_def addFeatureWith_def)

lemma addFeature_unless_true:
  assumes "fst (addFeature k newId now featureData s) \<noteq> Returns True"
  shows "snd (addFeature k newId now featureData s)
           = s\<lparr>errorMessage := errorMessage (snd (addFeature k newId now featureData s))\<rparr>"
  using assms
  by (auto simp: addFeature_def addFeatureWith_def Let_def split: if_splits attempt.splits)

subsection \<open>The example rectangles under the box kernel\<close>

lemma bigSquare_polygon:
  "getFeatureAsPolygon boxTurf bigSquare = Returns (Some (asPolyFeature bigSquare))"
  by code_simp

lemma smallSquare_polygon:
  "getFeatureAsPolygon boxTurf smallSquare = Returns (Some (asPolyFeature smallSquare))"
  by code_simp

lemma small_overlaps_big:
  "checkFeaturesOverlap boxTurf (asPolyFeature smallSquare) (asPolyFeature bigSquare)"
  by code_simp

lemma big_overlaps_small:
  "checkFeaturesOverlap boxTurf (asPolyFeature bigSquare) (asPolyFeature smallSquare)"
  by code_simp

lemma small_inside_big:
  "isFullyEnclosed boxTurf (asPolyFeature smallSquare) (asPolyFeature bigSquare)"
  by code_simp

lemma big_not_inside_small:
  "\<not> isFullyEnclosed boxTurf (asPolyFeature bigSquare) (asPolyFeature smallSquare)"
  by code_simp

subsection \<open>The two enclosure tests\<close>

text \<open>
  C1. Take an iteration of the loop of \<open>validateAndTrimFeature\<close>: the polygons before it
  (\<open>pre\<close>) have left \<open>currentPolygon\<close>, and \<open>currentPolygon\<close> overlaps the existing polygon
  of this iteration. If \<open>currentPolygon\<close> contains the existing polygon
  (\<open>isFullyEnclosed existingPolygon currentPolygon\<close>, that is
  \<open>turf.booleanContains(currentPolygon, existingPolygon)\<close>), the function returns the
  error "fully encloses an existing shape". If it does not, and the existing polygon
  contains \<open>currentPolygon\<close>, the function returns the error "fully enclosed by an
  existing shape".
\<close>

theorem enclosure_checks_at_iteration:
  assumes poly: "getFeatureAsPolygon k newFeature = Returns (Some newPolygon)"
    and eps: "existingPolygons k existingFeatures = Returns (pre @ (f, existingPolygon) # rest)"
    and reach: "trimLoop k newPolygon False pre = Inr (currentPolygon, changed)"
    and overlap: "checkFeaturesOverlap k currentPolygon existingPolygon"
  shows "(isFullyEnclosed k existingPolygon currentPolygon \<longrightarrow>
            validateAndTrimFeature k newFeature existingFeatures
              = Returns \<lparr>isValid = False, error = Some errEnclosesExisting, trimmedFeature = None\<rparr>)
       \<and> (\<not> isFullyEnclosed k existingPolygon currentPolygon
            \<and> isFullyEnclosed k currentPolygon existingPolygon \<longrightarrow>
            validateAndTrimFeature k newFeature existingFeatures
              = Returns \<lparr>isValid = False, error = Some errEnclosedByExisting, trimmedFeature = None\<rparr>)"
  using overlap
  by (simp add: validate_polygon_case [OF poly eps] trimLoop_at_iteration [OF reach]
      invalidResult_def)

theorem enclosure_checks_at_iteration_witness:
  "validateAndTrimFeature boxTurf bigSquare [farSquare, smallSquare]
     = Returns \<lparr>isValid = False, error = Some errEnclosesExisting, trimmedFeature = None\<rparr>
   \<and> validateAndTrimFeature boxTurf smallSquare [farSquare, bigSquare]
     = Returns \<lparr>isValid = False, error = Some errEnclosedByExisting, trimmedFeature = None\<rparr>"
proof -
  have e1: "existingPolygons boxTurf [farSquare, smallSquare]
              = Returns ([(farSquare, asPolyFeature farSquare)]
                          @ (smallSquare, asPolyFeature smallSquare) # [])"
    by code_simp
  have r1: "trimLoop boxTurf (asPolyFeature bigSquare) False [(farSquare, asPolyFeature farSquare)]
              = Inr (asPolyFeature bigSquare, False)"
    by code_simp
  have e2: "existingPolygons boxTurf [farSquare, bigSquare]
              = Returns ([(farSquare, asPolyFeature farSquare)]
                          @ (bigSquare, asPolyFeature bigSquare) # [])"
    by code_simp
  have r2: "trimLoop boxTurf (asPolyFeature smallSquare) False [(farSquare, asPolyFeature farSquare)]
              = Inr (asPolyFeature smallSquare, False)"
    by code_simp
  show ?thesis
    using enclosure_checks_at_iteration [OF bigSquare_polygon e1 r1 big_overlaps_small]
      enclosure_checks_at_iteration [OF smallSquare_polygon e2 r2 small_overlaps_big]
      small_inside_big big_not_inside_small
    by simp
qed

text \<open>
  C1 with the arguments the other way round does not hold: the small square overlaps the
  big one, the big one contains it (\<open>turf.booleanContains(existing, current)\<close> is true),
  and the error is "fully enclosed by an existing shape", not "fully encloses an
  existing shape".
\<close>

theorem existing_contains_current_counterexample:
  "getFeatureAsPolygon boxTurf smallSquare = Returns (Some (asPolyFeature smallSquare))
   \<and> existingPolygons boxTurf [bigSquare] = Returns [(bigSquare, asPolyFeature bigSquare)]
   \<and> checkFeaturesOverlap boxTurf (asPolyFeature smallSquare) (asPolyFeature bigSquare)
   \<and> turf_booleanContains boxTurf (asPolyFeature bigSquare) (asPolyFeature smallSquare)
       = Returns True
   \<and> validateAndTrimFeature boxTurf smallSquare [bigSquare]
       = Returns \<lparr>isValid = False, error = Some errEnclosedByExisting, trimmedFeature = None\<rparr>
   \<and> validateAndTrimFeature boxTurf smallSquare [bigSquare]
       \<noteq> Returns \<lparr>isValid = False, error = Some errEnclosesExisting, trimmedFeature = None\<rparr>"
  by code_simp

text \<open>
  C2. Let the shapes A and B both have a polygon, let the kernel report the two polygons
  as overlapping, in both orders, and let A's polygon contain B's but not B's contain A's.
  Validating A against B alone gives the error "fully encloses an existing shape";
  validating B against A alone gives "fully enclosed by an existing shape". In a store
  that holds only B and has room for A's shape type, \<open>addFeature\<close> for A returns \<open>false\<close>,
  sets that error message and changes nothing else; likewise for B in a store that holds
  only A.
\<close>

theorem strict_enclosure_symmetry:
  assumes pa: "getFeatureAsPolygon k (newFeatureOf dataA idA timeA) = Returns (Some pa)"
    and pb: "getFeatureAsPolygon k (newFeatureOf dataB idB timeB) = Returns (Some pb)"
    and oab: "checkFeaturesOverlap k pa pb"
    and oba: "checkFeaturesOverlap k pb pa"
    and inside: "isFullyEnclosed k pb pa"
    and strict: "\<not> isFullyEnclosed k pa pb"
    and onlyB: "features sB = [newFeatureOf dataB idB timeB]"
    and roomA: "\<not> isShapeLimitReached sB (shapeType (properties dataA))"
    and onlyA: "features sA = [newFeatureOf dataA idA timeA]"
    and roomB: "\<not> isShapeLimitReached sA (shapeType (properties dataB))"
  shows "validateAndTrimFeature k (newFeatureOf dataA idA timeA) [newFeatureOf dataB idB timeB]
           = Returns \<lparr>isValid = False, error = Some errEnclosesExisting, trimmedFeature = None\<rparr>
       \<and> validateAndTrimFeature k (newFeatureOf dataB idB timeB) [newFeatureOf dataA idA timeA]
           = Returns \<lparr>isValid = False, error = Some errEnclosedByExisting, trimmedFeature = None\<rparr>
       \<and> addFeature k idA timeA dataA sB
           = (Returns False, sB\<lparr>errorMessage := Some errEnclosesExisting\<rparr>)
       \<and> addFeature k idB timeB dataB sA
           = (Returns False, sA\<lparr>errorMessage := Some errEnclosedByExisting\<rparr>)"
proof -
  have vA: "validateAndTrimFeature k (newFeatureOf dataA idA timeA) [newFeatureOf dataB idB timeB]
           = Returns \<lparr>isValid = False, error = Some errEnclosesExisting, trimmedFeature = None\<rparr>"
    using oab inside
    by (simp add: validate_polygon_case [OF pa existingPolygons_single [OF pb]] invalidResult_def)
  have vB: "validateAndTrimFeature k (newFeatureOf dataB idB timeB) [newFeatureOf dataA idA timeA]
           = Returns \<lparr>isValid = False, error = Some errEnclosedByExisting, trimmedFeature = None\<rparr>"
    using oba inside strict
    by (simp add: validate_polygon_case [OF pb existingPolygons_single [OF pa]] invalidResult_def)
  have aA: "addFeature k idA timeA dataA sB
           = (Returns False, sB\<lparr>errorMessage := Some errEnclosesExisting\<rparr>)"
    using addFeature_rejected [OF roomA, of k idA timeA errEnclosesExisting] vA onlyB
    by (simp add: errorOrDefault_messages)
  have aB: "addFeature k idB timeB dataB sA
           = (Returns False, sA\<lparr>errorMessage := Some errEnclosedByExisting\<rparr>)"
    using addFeature_rejected [OF roomB, of k idB timeB errEnclosedByExisting] vB onlyA
    by (simp add: errorOrDefault_messages)
  show ?thesis using vA vB aA aB by simp
qed

theorem strict_enclosure_symmetry_witness:
  "validateAndTrimFeature boxTurf bigSquare [smallSquare]
     = Returns \<lparr>isValid = False, error = Some errEnclosesExisting, trimmedFeature = None\<rparr>
   \<and> validateAndTrimFeature boxTurf smallSquare [bigSquare]
     = Returns \<lparr>isValid = False, error = Some errEnclosedByExisting, trimmedFeature = None\<rparr>
   \<and> addFeature boxTurf ''a'' ''t0'' (createRectangle (corner 0 0) (corner 10 10))
         (initialState\<lparr>features := [smallSquare]\<rparr>)
     = (Returns False,
        initialState\<lparr>features := [smallSquare], errorMessage := Some errEnclosesExisting\<rparr>)
   \<and> addFeature boxTurf ''b'' ''t1'' (createRectangle (corner 2 2) (corner 4 4))
         (initialState\<lparr>features := [bigSquare]\<rparr>)
     = (Returns False,
        initialState\<lparr>features := [bigSquare], errorMessage := Some errEnclosedByExisting\<rparr>)"
proof -
  let ?dA = "createRectangle (corner 0 0) (corner 10 10)"
  let ?dB = "createRectangle (corner 2 2) (corner 4 4)"
  let ?sB = "initialState\<lparr>features := [smallSquare]\<rparr>"
  let ?sA = "initialState\<lparr>features := [bigSquare]\<rparr>"
  have pa: "getFeatureAsPolygon boxTurf (newFeatureOf ?dA ''a'' ''t0'')
              = Returns (Some (asPolyFeature bigSquare))"
    using bigSquare_polygon by (simp add: bigSquare_def)
  have pb: "getFeatureAsPolygon boxTurf (newFeatureOf ?dB ''b'' ''t1'')
              = Returns (Some (asPolyFeature smallSquare))"
    using smallSquare_polygon by (simp add: smallSquare_def)
  have onlyB: "features ?sB = [newFeatureOf ?dB ''b'' ''t1'']"
    by (simp add: smallSquare_def)
  have onlyA: "features ?sA = [newFeatureOf ?dA ''a'' ''t0'']"
    by (simp add: bigSquare_def)
  have roomA: "\<not> isShapeLimitReached ?sB (shapeType (properties ?dA))"
    by code_simp
  have roomB: "\<not> isShapeLimitReached ?sA (shapeType (properties ?dB))"
    by code_simp
  show ?thesis
    using strict_enclosure_symmetry
      [OF pa pb big_overlaps_small small_overlaps_big small_inside_big big_not_inside_small
          onlyB roomA onlyA roomB]
    by (simp add: bigSquare_def smallSquare_def)
qed

text \<open>
  C2 without the strictness does not hold: two squares of the same extent contain each
  other, and proposing one while the other is in the store gives "fully encloses an
  existing shape", since that test comes first.
\<close>

theorem identical_regions_counterexample:
  "getFeatureAsPolygon boxTurf bigSquare = Returns (Some (asPolyFeature bigSquare))
   \<and> getFeatureAsPolygon boxTurf twinSquare = Returns (Some (asPolyFeature twinSquare))
   \<and> checkFeaturesOverlap boxTurf (asPolyFeature twinSquare) (asPolyFeature bigSquare)
   \<and> turf_booleanContains boxTurf (asPolyFeature bigSquare) (asPolyFeature twinSquare)
       = Returns True
   \<and> validateAndTrimFeature boxTurf twinSquare [bigSquare]
       = Returns \<lparr>isValid = False, error = Some errEnclosesExisting, trimmedFeature = None\<rparr>
   \<and> validateAndTrimFeature boxTurf twinSquare [bigSquare]
       \<noteq> Returns \<lparr>isValid = False, error = Some errEnclosedByExisting, trimmedFeature = None\<rparr>"
  by code_simp

subsection \<open>The difference\<close>

text \<open>
  C3. \<open>trimPolygon\<close> has two kinds of result, a polygon or \<open>null\<close>. It is \<open>null\<close> exactly
  when \<open>turf.difference\<close> throws or returns \<open>null\<close>. At an iteration of the loop of
  \<open>validateAndTrimFeature\<close> that gets as far as the difference (the polygons overlap and
  neither contains the other), the function returns in both cases the one error
  "completely consumed by overlap trimming".
\<close>

theorem trimPolygon_two_way:
  "(trimPolygon k currentPolygon existingPolygon = None \<longleftrightarrow>
      turf_difference k currentPolygon existingPolygon = Throws
      \<or> turf_difference k currentPolygon existingPolygon = Returns None)
   \<and> (getFeatureAsPolygon k newFeature = Returns (Some newPolygon)
        \<and> existingPolygons k existingFeatures = Returns (pre @ (f, existingPolygon) # rest)
        \<and> trimLoop k newPolygon False pre = Inr (currentPolygon, changed)
        \<and> checkFeaturesOverlap k currentPolygon existingPolygon
        \<and> \<not> isFullyEnclosed k existingPolygon currentPolygon
        \<and> \<not> isFullyEnclosed k currentPolygon existingPolygon
        \<and> (turf_difference k currentPolygon existingPolygon = Throws
             \<or> turf_difference k currentPolygon existingPolygon = Returns None)
        \<longrightarrow> trimLoop k currentPolygon changed ((f, existingPolygon) # rest)
              = Inl errFullyConsumed
            \<and> validateAndTrimFeature k newFeature existingFeatures
              = Returns \<lparr>isValid = False, error = Some errFullyConsumed,
                         trimmedFeature = None\<rparr>)"
proof -
  have split: "trimPolygon k currentPolygon existingPolygon = None \<longleftrightarrow>
      turf_difference k currentPolygon existingPolygon = Throws
      \<or> turf_difference k currentPolygon existingPolygon = Returns None"
    by (auto simp: trimPolygon_def split: attempt.splits)
  have loop: "trimLoop k currentPolygon changed ((f, existingPolygon) # rest)
                = Inl errFullyConsumed"
    if "checkFeaturesOverlap k currentPolygon existingPolygon"
      and "\<not> isFullyEnclosed k existingPolygon currentPolygon"
      and "\<not> isFullyEnclosed k currentPolygon existingPolygon"
      and "turf_difference k currentPolygon existingPolygon = Throws
           \<or> turf_difference k currentPolygon existingPolygon = Returns None"
    using that split by simp
  have whole: "validateAndTrimFeature k newFeature existingFeatures
                 = Returns \<lparr>isValid = False, error = Some errFullyConsumed,
                            trimmedFeature = None\<rparr>"
    if poly: "getFeatureAsPolygon k newFeature = Returns (Some newPolygon)"
      and eps: "existingPolygons k existingFeatures
                  = Returns (pre @ (f, existingPolygon) # rest)"
      and reach: "trimLoop k newPolygon False pre = Inr (currentPolygon, changed)"
      and step: "trimLoop k currentPolygon changed ((f, existingPolygon) # rest)
                   = Inl errFullyConsumed"
    using step
    by (simp add: validate_polygon_case [OF poly eps] trimLoop_at_iteration [OF reach]
        invalidResult_def)
  show ?thesis using split loop whole by blast
qed

text \<open>
  The witness proposes the shifted square to a store with the far and the big square,
  once under a kernel whose difference always throws and once under a kernel whose
  difference is always empty.
\<close>

theorem trimPolygon_two_way_witness:
  "validateAndTrimFeature (boxTurf\<lparr>turf_difference := \<lambda>a b. Throws\<rparr>)
       shiftedSquare [farSquare, bigSquare]
     = Returns \<lparr>isValid = False, error = Some errFullyConsumed, trimmedFeature = None\<rparr>
   \<and> validateAndTrimFeature (boxTurf\<lparr>turf_difference := \<lambda>a b. Returns None\<rparr>)
       shiftedSquare [farSquare, bigSquare]
     = Returns \<lparr>isValid = False, error = Some errFullyConsumed, trimmedFeature = None\<rparr>"
proof -
  let ?kF = "boxTurf\<lparr>turf_difference := \<lambda>a b. Throws\<rparr>"
  let ?kE = "boxTurf\<lparr>turf_difference := \<lambda>a b. Returns None\<rparr>"
  let ?c = "asPolyFeature shiftedSquare"
  let ?e = "asPolyFeature bigSquare"
  let ?pre = "[(farSquare, asPolyFeature farSquare)]"
  have hF: "getFeatureAsPolygon ?kF shiftedSquare = Returns (Some ?c)
            \<and> existingPolygons ?kF [farSquare, bigSquare] = Returns (?pre @ (bigSquare, ?e) # [])
            \<and> trimLoop ?kF ?c False ?pre = Inr (?c, False)
            \<and> checkFeaturesOverlap ?kF ?c ?e \<and> \<not> isFullyEnclosed ?kF ?e ?c
            \<and> \<not> isFullyEnclosed ?kF ?c ?e
            \<and> (turf_difference ?kF ?c ?e = Throws \<or> turf_difference ?kF ?c ?e = Returns None)"
    by code_simp
  have hE: "getFeatureAsPolygon ?kE shiftedSquare = Returns (Some ?c)
            \<and> existingPolygons ?kE [farSquare, bigSquare] = Returns (?pre @ (bigSquare, ?e) # [])
            \<and> trimLoop ?kE ?c False ?pre = Inr (?c, False)
            \<and> checkFeaturesOverlap ?kE ?c ?e \<and> \<not> isFullyEnclosed ?kE ?e ?c
            \<and> \<not> isFullyEnclosed ?kE ?c ?e
            \<and> (turf_difference ?kE ?c ?e = Throws \<or> turf_difference ?kE ?c ?e = Returns None)"
    by code_simp
  show ?thesis
    using trimPolygon_two_way
            [of ?kF ?c ?e shiftedSquare ?c "[farSquare, bigSquare]" ?pre bigSquare "[]" False] hF
      trimPolygon_two_way
            [of ?kE ?c ?e shiftedSquare ?c "[farSquare, bigSquare]" ?pre bigSquare "[]" False] hE
    by blast
qed

text \<open>
  C3 as a three-way result does not hold: a difference that throws (the ring of the
  second polygon has no position) and a difference that is empty (the second polygon is
  of the same extent) give the same value of \<open>trimPolygon\<close>, namely \<open>null\<close>.
\<close>

theorem failed_and_empty_counterexample:
  "turf_difference boxTurf (asPolyFeature bigSquare) brokenPolygon = Throws
   \<and> turf_difference boxTurf (asPolyFeature bigSquare) (asPolyFeature twinSquare) = Returns None
   \<and> trimPolygon boxTurf (asPolyFeature bigSquare) brokenPolygon = None
   \<and> trimPolygon boxTurf (asPolyFeature bigSquare) (asPolyFeature twinSquare) = None
   \<and> trimPolygon boxTurf (asPolyFeature bigSquare) brokenPolygon
       = trimPolygon boxTurf (asPolyFeature bigSquare) (asPolyFeature twinSquare)"
  by code_simp

subsection \<open>Candidates without overlap checks\<close>

text \<open>
  C6. A line-string candidate is valid as it is, whatever the existing shapes are and
  whatever the geometry kernel would answer: the result carries no error and no trimmed
  feature, and neither the existing features nor the kernel enter it.
\<close>

theorem linestring_always_valid:
  assumes "shapeType (properties newFeature) = linestring"
  shows "validateAndTrimFeature k newFeature existingFeatures
           = Returns \<lparr>isValid = True, error = None, trimmedFeature = None\<rparr>"
  using assms by (simp add: validateAndTrimFeature_def validResult_def)

theorem linestring_always_valid_witness:
  "shapeType (properties crossingLine) = linestring
   \<and> validateAndTrimFeature boxTurf crossingLine [bigSquare, smallSquare]
       = Returns \<lparr>isValid = True, error = None, trimmedFeature = None\<rparr>"
proof -
  have h: "shapeType (properties crossingLine) = linestring"
    by (simp add: crossingLine_def)
  show ?thesis
    using h linestring_always_valid [OF h, of boxTurf "[bigSquare, smallSquare]"] by simp
qed

text \<open>
  C9. A candidate whose geometry is neither a polygon nor a multi-polygon, and whose
  shape type is polygon or rectangle, or is circle without a center or without a radius
  (or with the radius 0, which is falsy), has no polygon: \<open>getFeatureAsPolygon\<close> returns
  \<open>null\<close>, and \<open>validateAndTrimFeature\<close> returns valid, with no error and no trimmed
  feature, for every list of existing features and every kernel.
\<close>

theorem no_polygon_no_checks:
  assumes "shapeType (properties newFeature) = polygon
           \<or> shapeType (properties newFeature) = rectangle
           \<or> (shapeType (properties newFeature) = circle
               \<and> (center (properties newFeature) = None
                   \<or> radius (properties newFeature) = None
                   \<or> radius (properties newFeature) = Some 0))"
    and "\<not> isPolygonGeometry (geometry newFeature)"
  shows "getFeatureAsPolygon k newFeature = Returns None
       \<and> validateAndTrimFeature k newFeature existingFeatures
           = Returns \<lparr>isValid = True, error = None, trimmedFeature = None\<rparr>"
  using assms
  by (auto simp: validateAndTrimFeature_def getFeatureAsPolygon_def validResult_def
      truthyCenter_def truthyRadius_def)

theorem no_polygon_no_checks_witness:
  "validateAndTrimFeature boxTurf pointPolygon [bigSquare]
     = Returns \<lparr>isValid = True, error = None, trimmedFeature = None\<rparr>
   \<and> validateAndTrimFeature boxTurf radiuslessCircle [bigSquare]
     = Returns \<lparr>isValid = True, error = None, trimmedFeature = None\<rparr>"
proof -
  have p1: "shapeType (properties pointPolygon) = polygon
           \<or> shapeType (properties pointPolygon) = rectangle
           \<or> (shapeType (properties pointPolygon) = circle
               \<and> (center (properties pointPolygon) = None
                   \<or> radius (properties pointPolygon) = None
                   \<or> radius (properties pointPolygon) = Some 0))"
    by (simp add: pointPolygon_def)
  have g1: "\<not> isPolygonGeometry (geometry pointPolygon)"
    by (simp add: pointPolygon_def isPolygonGeometry_def)
  have p2: "shapeType (properties radiuslessCircle) = polygon
           \<or> shapeType (properties radiuslessCircle) = rectangle
           \<or> (shapeType (properties radiuslessCircle) = circle
               \<and> (center (properties radiuslessCircle) = None
                   \<or> radius (properties radiuslessCircle) = None
                   \<or> radius (properties radiuslessCircle) = Some 0))"
    by (simp add: radiuslessCircle_def)
  have g2: "\<not> isPolygonGeometry (geometry radiuslessCircle)"
    by (simp add: radiuslessCircle_def isPolygonGeometry_def)
  show ?thesis
    using no_polygon_no_checks [OF p1 g1, of boxTurf "[bigSquare]"]
      no_polygon_no_checks [OF p2 g2, of boxTurf "[bigSquare]"]
    by simp
qed

text \<open>
  C9 without the condition on the geometry does not hold for circles: a feature of shape
  type circle that has no center but a polygon geometry is taken as that polygon, and it
  is rejected inside the big square.
\<close>

theorem circle_with_polygon_geometry_counterexample:
  "shapeType (properties strayCircle) = circle
   \<and> center (properties strayCircle) = None
   \<and> getFeatureAsPolygon boxTurf strayCircle = Returns (Some (asPolyFeature strayCircle))
   \<and> validateAndTrimFeature boxTurf strayCircle [bigSquare]
       = Returns \<lparr>isValid = False, error = Some errEnclosedByExisting, trimmedFeature = None\<rparr>
   \<and> validateAndTrimFeature boxTurf strayCircle [bigSquare]
       \<noteq> Returns \<lparr>isValid = True, error = None, trimmedFeature = None\<rparr>"
  by code_simp

section \<open>Properties of the store\<close>

text \<open>
  C5. When the count of the candidate's shape type has reached the configured limit,
  \<open>addFeature\<close> returns \<open>false\<close> with the limit message and changes nothing else. The
  result is the same for every validation function put in place of
  \<open>validateAndTrimFeature\<close>, also one that throws on every call: the validation is not
  called.
\<close>

theorem limit_reached_before_validation:
  assumes "isShapeLimitReached s (shapeType (properties featureData))"
  shows "addFeatureWith validate newId now featureData s
           = (Returns False,
              s\<lparr>errorMessage := Some (limitMessage s (shapeType (properties featureData)))\<rparr>)
         \<and> addFeature k newId now featureData s
           = (Returns False,
              s\<lparr>errorMessage := Some (limitMessage s (shapeType (properties featureData)))\<rparr>)
         \<and> features (snd (addFeature k newId now featureData s)) = features s"
  using assms by (simp add: addFeatureWith_def addFeature_def)

theorem limit_reached_before_validation_witness:
  "isShapeLimitReached fullOfRectangles
     (shapeType (properties (createRectangle (corner 2 2) (corner 4 4))))
   \<and> addFeatureWith (\<lambda>newFeature existingFeatures. Throws) ''n'' ''t''
         (createRectangle (corner 2 2) (corner 4 4)) fullOfRectangles
       = (Returns False, fullOfRectangles\<lparr>errorMessage := Some ''Maximum 2 rectangles reached''\<rparr>)
   \<and> addFeature boxTurf ''n'' ''t'' (createRectangle (corner 2 2) (corner 4 4)) fullOfRectangles
       = (Returns False, fullOfRectangles\<lparr>errorMessage := Some ''Maximum 2 rectangles reached''\<rparr>)"
proof -
  have h: "isShapeLimitReached fullOfRectangles
             (shapeType (properties (createRectangle (corner 2 2) (corner 4 4))))"
    by (simp add: isShapeLimitReached_def getShapeCounts_def fullOfRectangles_def initialState_def
        createRectangle_def bigSquare_def farSquare_def newFeatureOf_def)
  have m: "limitMessage fullOfRectangles rectangle = ''Maximum 2 rectangles reached''"
    by (simp add: limitMessage_def fullOfRectangles_def showInt_def showNat.simps shapeTypeName_def)
  have r: "shapeType (properties (createRectangle (corner 2 2) (corner 4 4))) = rectangle"
    by (simp add: createRectangle_def)
  show ?thesis
    using h m r
      limit_reached_before_validation
        [OF h, of "\<lambda>newFeature existingFeatures. Throws" "''n''" "''t''" boxTurf]
    by simp
qed

text \<open>
  C4. Whenever \<open>addFeature\<close> does not return \<open>true\<close> (it returns \<open>false\<close> for the limit
  and for each rejection of the validation, or an exception of the kernel escapes), the
  features of the store are the ones before the call; the only field that may differ is
  the error message.
\<close>

theorem rejection_commits_nothing:
  assumes "fst (addFeature k newId now featureData s) \<noteq> Returns True"
  shows "features (snd (addFeature k newId now featureData s)) = features s
         \<and> snd (addFeature k newId now featureData s)
             = s\<lparr>errorMessage := errorMessage (snd (addFeature k newId now featureData s))\<rparr>"
  using assms
  by (auto simp: addFeature_def addFeatureWith_def Let_def split: if_splits attempt.splits)

text \<open>
  The candidate of the witness straddles the edge between two accepted squares: the loop
  trims it against the first, and what is left lies inside the second.
\<close>

theorem rejection_commits_nothing_witness:
  "trimLoop boxTurf
       (asPolyFeature (newFeatureOf (createRectangle (corner 5 2) (corner 14 8)) ''x'' ''t''))
       False [(bigSquare, asPolyFeature bigSquare)]
     = Inr (\<lparr>geometry = Polygon [[[10, 2], [14, 2], [14, 8], [10, 8], [10, 2]]],
             properties = Some (properties
               (newFeatureOf (createRectangle (corner 5 2) (corner 14 8)) ''x'' ''t''))\<rparr>, True)
   \<and> fst (addFeature boxTurf ''x'' ''t'' (createRectangle (corner 5 2) (corner 14 8)) twoAdjacent)
     = Returns False
   \<and> errorMessage (snd (addFeature boxTurf ''x'' ''t'' (createRectangle (corner 5 2) (corner 14 8))
          twoAdjacent))
     = Some errEnclosedByExisting
   \<and> features (snd (addFeature boxTurf ''x'' ''t'' (createRectangle (corner 5 2) (corner 14 8))
          twoAdjacent))
       = [bigSquare, adjacentSquare]"
proof -
  let ?d = "createRectangle (corner 5 2) (corner 14 8)"
  have t: "trimLoop boxTurf (asPolyFeature (newFeatureOf ?d ''x'' ''t'')) False
             [(bigSquare, asPolyFeature bigSquare)]
     = Inr (\<lparr>geometry = Polygon [[[10, 2], [14, 2], [14, 8], [10, 8], [10, 2]]],
             properties = Some (properties (newFeatureOf ?d ''x'' ''t''))\<rparr>, True)"
    by code_simp
  have r: "fst (addFeature boxTurf ''x'' ''t'' ?d twoAdjacent) = Returns False"
    by code_simp
  have e: "errorMessage (snd (addFeature boxTurf ''x'' ''t'' ?d twoAdjacent))
             = Some errEnclosedByExisting"
    by code_simp
  from r have h: "fst (addFeature boxTurf ''x'' ''t'' ?d twoAdjacent) \<noteq> Returns True"
    by simp
  have f: "features twoAdjacent = [bigSquare, adjacentSquare]"
    by (simp add: twoAdjacent_def)
  show ?thesis
    using t r e f rejection_commits_nothing [OF h] by simp
qed

text \<open>
  C8. \<open>removeFeature\<close> keeps exactly the features whose id differs from the given one, in
  their order and as they are: the result is a subsequence of the old list, every
  feature with another id stays, and none with the given id stays. When no feature
  carries the id the list does not change; when exactly one does, the result is the list
  without it.
\<close>

theorem removeFeature_frame:
  "features (removeFeature i s) = filter (\<lambda>f. id_prop (properties f) \<noteq> i) (features s)
   \<and> subseq (features (removeFeature i s)) (features s)
   \<and> (\<forall>f \<in> set (features s).
        id_prop (properties f) \<noteq> i \<longrightarrow> f \<in> set (features (removeFeature i s)))
   \<and> (\<forall>f \<in> set (features (removeFeature i s)). id_prop (properties f) \<noteq> i)
   \<and> ((\<forall>f \<in> set (features s). id_prop (properties f) \<noteq> i) \<longrightarrow>
        features (removeFeature i s) = features s)
   \<and> (\<forall>before f after.
        features s = before @ f # after \<and> id_prop (properties f) = i
        \<and> (\<forall>g \<in> set (before @ after). id_prop (properties g) \<noteq> i)
        \<longrightarrow> features (removeFeature i s) = before @ after)"
  by (auto simp: removeFeature_def filter_id_conv)

theorem removeFeature_frame_witness:
  "features (removeFeature ''d'' threeShapes) = [bigSquare, crossingLine]
   \<and> features (removeFeature ''zz'' threeShapes) = [bigSquare, farSquare, crossingLine]"
proof -
  have ids: "id_prop (properties bigSquare) = ''a''" "id_prop (properties farSquare) = ''d''"
    "id_prop (properties crossingLine) = ''l''"
    by (simp_all add: bigSquare_def farSquare_def crossingLine_def newFeatureOf_def)
  have fs: "features threeShapes = [bigSquare] @ farSquare # [crossingLine]"
    by (simp add: threeShapes_def)
  have one: "\<forall>g \<in> set ([bigSquare] @ [crossingLine]). id_prop (properties g) \<noteq> ''d''"
    using ids by simp
  have none: "\<forall>f \<in> set (features threeShapes). id_prop (properties f) \<noteq> ''zz''"
    using ids by (simp add: threeShapes_def)
  have "features (removeFeature ''d'' threeShapes) = [bigSquare] @ [crossingLine]"
    using removeFeature_frame [of "''d''" threeShapes] fs one ids(2) by blast
  moreover have "features (removeFeature ''zz'' threeShapes) = features threeShapes"
    using removeFeature_frame [of "''zz''" threeShapes] none by blast
  ultimately show ?thesis by (simp add: threeShapes_def)
qed

text \<open>
  C7. Of the actions of the store, four write the features: \<open>addFeature\<close>, which keeps
  the list and appends at most one feature; \<open>removeFeature\<close>, which keeps a subsequence;
  \<open>clearAllFeatures\<close>, which empties the list; and \<open>updateFeature\<close>, which replaces the
  geometry and the properties that the update brings in every feature with the given id.
  All other actions leave the features as they are.
\<close>

theorem features_writers:
  "features (perform k (SetDrawingMode mode) s) = features s
   \<and> features (perform k ExportGeoJSON s) = features s
   \<and> features (perform k ClearError s) = features s
   \<and> features (perform k ClearSuccess s) = features s
   \<and> features (perform k (UpdateShapeLimits limits) s) = features s
   \<and> prefix (features s) (features (perform k (AddFeature newId now featureData) s))
   \<and> length (features (perform k (AddFeature newId now featureData) s))
       \<le> Suc (length (features s))
   \<and> subseq (features (perform k (RemoveFeature i) s)) (features s)
   \<and> features (perform k ClearAllFeatures s) = []
   \<and> features (perform k (UpdateFeature i updates) s)
       = map (\<lambda>f. if id_prop (properties f) = i then spreadUpdates f updates else f) (features s)"
  by (auto simp: setDrawingMode_def exportGeoJSON_def clearError_def clearSuccess_def
      updateShapeLimits_def addFeature_def addFeatureWith_def Let_def removeFeature_def
      clearAllFeatures_def updateFeature_def split: option.splits attempt.splits)

text \<open>
  C7 with add, remove and clear as the only writers does not hold: \<open>updateFeature\<close>
  replaces the geometry of the accepted square in place.
\<close>

theorem updateFeature_counterexample:
  "features (perform boxTurf
       (UpdateFeature ''a'' \<lparr>geometryUpdate = Some (Point [0, 0]), propertiesUpdate = None\<rparr>)
       oneSquare)
     = [bigSquare\<lparr>geometry := Point [0, 0]\<rparr>]
   \<and> features (perform boxTurf
       (UpdateFeature ''a'' \<lparr>geometryUpdate = Some (Point [0, 0]), propertiesUpdate = None\<rparr>)
       oneSquare)
     \<noteq> features oneSquare"
  by code_simp

subsection \<open>Counts and limits\<close>

lemma withinLimits_iff: "withinLimits s \<longleftrightarrow> (\<forall>t. getShapeCounts s t \<le> shapeLimits s t)"
proof
  assume w: "withinLimits s"
  show "\<forall>t. getShapeCounts s t \<le> shapeLimits s t"
  proof
    fix t show "getShapeCounts s t \<le> shapeLimits s t"
      using w by (cases t) (simp_all add: withinLimits_def)
  qed
next
  assume "\<forall>t. getShapeCounts s t \<le> shapeLimits s t"
  then show "withinLimits s" by (simp add: withinLimits_def)
qed

lemma withinLimits_initialState: "withinLimits initialState"
  by (simp add: withinLimits_def initialState_def getShapeCounts_def DEFAULT_SHAPE_LIMITS_def)

lemma addFeature_cases:
  "snd (addFeature k newId now featureData s)
     = s\<lparr>errorMessage := errorMessage (snd (addFeature k newId now featureData s))\<rparr>
   \<or> (\<not> isShapeLimitReached s (shapeType (properties featureData))
       \<and> (\<exists>f. shapeType (properties f) = shapeType (properties featureData)
              \<and> features (snd (addFeature k newId now featureData s)) = features s @ [f])
       \<and> shapeLimits (snd (addFeature k newId now featureData s)) = shapeLimits s)"
proof (cases "fst (addFeature k newId now featureData s) = Returns True")
  case False
  then show ?thesis using addFeature_unless_true [OF False] by simp
next
  case True
  then have room: "\<not> isShapeLimitReached s (shapeType (properties featureData))"
    by (auto simp: addFeature_def addFeatureWith_def split: if_splits)
  obtain r where
    r: "validateAndTrimFeature k (newFeatureOf featureData newId now) (features s) = Returns r"
    and v: "isValid r"
    using True room
    by (auto simp: addFeature_def addFeatureWith_def Let_def split: if_splits attempt.splits)
  let ?f = "case trimmedFeature r of Some t \<Rightarrow> t | None \<Rightarrow> newFeatureOf featureData newId now"
  have kind: "shapeType (properties ?f) = shapeType (properties featureData)"
    using trimmedFeature_properties [OF r]
    by (auto simp: newFeatureOf_def split: option.splits)
  have "features (snd (addFeature k newId now featureData s)) = features s @ [?f]"
    "shapeLimits (snd (addFeature k newId now featureData s)) = shapeLimits s"
    using room r v by (simp_all add: addFeature_def addFeatureWith_def Let_def)
  then show ?thesis using room kind by blast
qed

lemma count_map_same_kind:
  assumes "\<forall>f \<in> set fs. shapeType (properties (g f)) = shapeType (properties f)"
  shows "length (filter (\<lambda>f. shapeType (properties f) = t) (map g fs))
           = length (filter (\<lambda>f. shapeType (properties f) = t) fs)"
  using assms by (induction fs) auto

lemma count_filter_le:
  "length (filter P (filter Q xs)) \<le> length (filter P xs)"
  by (induction xs) auto

lemma perform_keeps_withinLimits:
  assumes w: "withinLimits s" and a: "keepsLimitsAndKinds s a"
  shows "withinLimits (perform k a s) \<and> shapeLimits (perform k a s) = shapeLimits s"
proof (cases a)
  case (SetDrawingMode mode)
  then show ?thesis using w
    by (auto simp: withinLimits_def getShapeCounts_def setDrawingMode_def split: option.splits)
next
  case (AddFeature newId now featureData)
  let ?s' = "snd (addFeature k newId now featureData s)"
  from addFeature_cases [of k newId now featureData s]
  show ?thesis
  proof
    assume "?s' = s\<lparr>errorMessage := errorMessage ?s'\<rparr>"
    then have "features ?s' = features s" "shapeLimits ?s' = shapeLimits s"
      by (metis MapState.select_convs(1) MapState.surjective MapState.update_convs(4),
          metis MapState.select_convs(3) MapState.surjective MapState.update_convs(4))
    then show ?thesis using w AddFeature
      by (simp add: withinLimits_def getShapeCounts_def)
  next
    assume h: "\<not> isShapeLimitReached s (shapeType (properties featureData))
       \<and> (\<exists>f. shapeType (properties f) = shapeType (properties featureData)
              \<and> features ?s' = features s @ [f])
       \<and> shapeLimits ?s' = shapeLimits s"
    then obtain f where f: "shapeType (properties f) = shapeType (properties featureData)"
      "features ?s' = features s @ [f]" by blast
    have lim: "shapeLimits ?s' = shapeLimits s" using h by simp
    have room: "getShapeCounts s (shapeType (properties featureData))
                  < shapeLimits s (shapeType (properties featureData))"
      using h by (simp add: isShapeLimitReached_def)
    have "\<forall>t. getShapeCounts ?s' t \<le> shapeLimits ?s' t"
    proof
      fix t
      have "getShapeCounts s t \<le> shapeLimits s t" using w by (simp add: withinLimits_iff)
      then show "getShapeCounts ?s' t \<le> shapeLimits ?s' t"
        using room f lim
        by (cases "t = shapeType (properties featureData)") (auto simp: getShapeCounts_def)
    qed
    then show ?thesis using lim AddFeature by (simp add: withinLimits_iff)
  qed
next
  case (RemoveFeature i)
  have "\<forall>t. getShapeCounts (removeFeature i s) t \<le> shapeLimits (removeFeature i s) t"
  proof
    fix t
    have "length (filter (\<lambda>f. shapeType (properties f) = t)
                   (filter (\<lambda>f. id_prop (properties f) \<noteq> i) (features s)))
            \<le> length (filter (\<lambda>f. shapeType (properties f) = t) (features s))"
      by (rule count_filter_le)
    moreover have "getShapeCounts s t \<le> shapeLimits s t" using w by (simp add: withinLimits_iff)
    ultimately show "getShapeCounts (removeFeature i s) t \<le> shapeLimits (removeFeature i s) t"
      by (simp add: getShapeCounts_def removeFeature_def)
  qed
  then show ?thesis using RemoveFeature by (simp add: withinLimits_iff removeFeature_def)
next
  case (UpdateFeature i updates)
  let ?g = "\<lambda>f. if id_prop (properties f) = i then spreadUpdates f updates else f"
  have same: "\<forall>f \<in> set (features s). shapeType (properties (?g f)) = shapeType (properties f)"
    using a UpdateFeature
    by (auto simp: spreadUpdates_def list_all_iff split: option.splits)
  have "\<forall>t. getShapeCounts (updateFeature i updates s) t = getShapeCounts s t"
    using count_map_same_kind [OF same] by (simp add: getShapeCounts_def updateFeature_def)
  then show ?thesis using w UpdateFeature
    by (simp add: withinLimits_iff updateFeature_def)
next
  case ClearAllFeatures
  have "\<forall>t. 0 \<le> shapeLimits s t"
  proof
    fix t
    have "getShapeCounts s t \<le> shapeLimits s t" using w by (simp add: withinLimits_iff)
    moreover have "0 \<le> getShapeCounts s t" by (simp add: getShapeCounts_def)
    ultimately show "0 \<le> shapeLimits s t" by linarith
  qed
  then show ?thesis using ClearAllFeatures
    by (simp add: withinLimits_iff clearAllFeatures_def getShapeCounts_def)
next
  case ExportGeoJSON
  then show ?thesis using w
    by (auto simp: withinLimits_def getShapeCounts_def exportGeoJSON_def)
next
  case ClearError
  then show ?thesis using w by (auto simp: withinLimits_def getShapeCounts_def clearError_def)
next
  case ClearSuccess
  then show ?thesis using w by (auto simp: withinLimits_def getShapeCounts_def clearSuccess_def)
next
  case (UpdateShapeLimits limits)
  then show ?thesis using a by simp
qed

lemma performAll_keeps_withinLimits:
  "withinLimits s \<Longrightarrow> admissibleRun k as s \<Longrightarrow>
     withinLimits (performAll k as s) \<and> shapeLimits (performAll k as s) = shapeLimits s"
proof (induction as arbitrary: s)
  case Nil
  then show ?case by simp
next
  case (Cons a as)
  from Cons.prems have step:
    "withinLimits (perform k a s)" "shapeLimits (perform k a s) = shapeLimits s"
    using perform_keeps_withinLimits [of s a k] by simp_all
  from Cons.prems have "admissibleRun k as (perform k a s)" by simp
  from Cons.IH [OF step(1) this] step(2) show ?case by simp
qed

text \<open>
  C10. Start from the initial store and let a client call the actions of the store in any
  order, but never \<open>updateShapeLimits\<close>, and \<open>updateFeature\<close> only with updates that leave
  the shape type of the features they touch as it is. Then in every state reached, for
  every shape type, the count of features of that type is at most the configured limit,
  which is still the default one.
\<close>

theorem counts_within_limits:
  assumes "admissibleRun k as initialState"
  shows "(\<forall>t. getShapeCounts (performAll k as initialState) t \<le> DEFAULT_SHAPE_LIMITS t)
       \<and> shapeLimits (performAll k as initialState) = DEFAULT_SHAPE_LIMITS"
proof -
  have "withinLimits (performAll k as initialState)"
    and "shapeLimits (performAll k as initialState) = shapeLimits initialState"
    using performAll_keeps_withinLimits [OF withinLimits_initialState assms] by simp_all
  moreover have "shapeLimits initialState = DEFAULT_SHAPE_LIMITS"
    by (simp add: initialState_def)
  ultimately show ?thesis by (simp add: withinLimits_iff)
qed

theorem counts_within_limits_witness:
  "admissibleRun boxTurf steadyRun initialState
   \<and> (\<forall>t. getShapeCounts (performAll boxTurf steadyRun initialState) t \<le> DEFAULT_SHAPE_LIMITS t)
   \<and> map (\<lambda>f. id_prop (properties f)) (features (performAll boxTurf steadyRun initialState))
       = [''a'', ''k'', ''l'']"
proof -
  have h: "admissibleRun boxTurf steadyRun initialState"
    by code_simp
  have ids: "map (\<lambda>f. id_prop (properties f)) (features (performAll boxTurf steadyRun initialState))
       = [''a'', ''k'', ''l'']"
    by code_simp
  show ?thesis
    using h ids counts_within_limits [OF h] by simp
qed

text \<open>
  C10 for every action but \<open>updateShapeLimits\<close> does not hold: after five circles and a
  rectangle, \<open>updateFeature\<close> with circle properties for the rectangle leaves six
  features of shape type circle in the store, while the limit for circles is still 5.
\<close>

theorem updateFeature_exceeds_limit_counterexample:
  "list_all (\<lambda>a. \<not> changesLimits a) overfullRun
   \<and> shapeLimits (performAll boxTurf overfullRun initialState) circle = 5
   \<and> getShapeCounts (performAll boxTurf overfullRun initialState) circle = 6
   \<and> \<not> withinLimits (performAll boxTurf overfullRun initialState)"
  by code_simp

end
